theory Spec2Isabelle
  imports Complex_Main
begin

section \<open>JavaScript values\<close>

text \<open>
  The form state of \<^verbatim>\<open>src/src/App.js\<close> is a JavaScript object. Its properties hold
  JavaScript values: a number is NaN, an infinity or a finite double (every finite double
  is a real number, and the only arithmetic done on it is the comparison with the bound
  of \<^verbatim>\<open>min\<close>); a Date object is the invalid date or a time value in milliseconds.
  A string is a list of characters. A property that is absent reads as \<open>Undefined\<close>.
\<close>

datatype jsnum = NaN | Fin real | PosInf | NegInf

datatype jsdate = InvalidDate | DateAt int

datatype jsval =
    Undefined
  | Null
  | Bool bool
  | Num jsnum
  | Str string
  | Arr "jsval list"
  | DateV jsdate

text \<open>The object of \<^verbatim>\<open>useState({fullName: '', ...})\<close>, lines 29 to 39.\<close>

record formData =
  fullName :: jsval
  email :: jsval
  phoneNumber :: jsval
  position :: jsval
  relevantExperience :: jsval
  portfolioURL :: jsval
  managementExperience :: jsval
  additionalSkills :: jsval
  interviewTime :: jsval

text \<open>Reading a property by its name, \<^verbatim>\<open>value[key]\<close>.\<close>

definition get_prop :: "formData \<Rightarrow> string \<Rightarrow> jsval" where
  "get_prop fd k =
     (if k = ''fullName'' then fullName fd
      else if k = ''email'' then email fd
      else if k = ''phoneNumber'' then phoneNumber fd
      else if k = ''position'' then position fd
      else if k = ''relevantExperience'' then relevantExperience fd
      else if k = ''portfolioURL'' then portfolioURL fd
      else if k = ''managementExperience'' then managementExperience fd
      else if k = ''additionalSkills'' then additionalSkills fd
      else if k = ''interviewTime'' then interviewTime fd
      else Undefined)"

section \<open>The validation library\<close>

text \<open>
  \<^verbatim>\<open>App.js\<close> builds its schema with the library yup and passes a schema object as the
  \<^verbatim>\<open>then\<close> branch of \<^verbatim>\<open>when\<close>; that is the interface of yup 0.32, whose behaviour is
  modelled here: a schema has a type, a type-error test with its message, a sequence of
  tests and a sequence of conditions.

  A message is either a text given in \<^verbatim>\<open>App.js\<close> or the library's default type-error
  message (\<^verbatim>\<open>locale.mixed.notType\<close>), whose wording is not modelled.
\<close>

datatype ytype = TString | TNumber | TArray | TDate

datatype message = Msg string | NotType ytype

datatype test =
    Required message
  | Email message
  | Url message
  | MinOf int message

datatype schema =
    Schema (stype: ytype) (typeErr: message) (tests: "test list") (conditions: "cond list")
and cond =
    When (ref: string) (is_fn: "jsval \<Rightarrow> bool") (then_schema: schema)

text \<open>
  What the library takes from outside of itself: its two regular expressions
  (\<^verbatim>\<open>rEmail\<close>, \<^verbatim>\<open>rUrl\<close>), JavaScript's conversion of a string to a number (the unary
  \<^verbatim>\<open>+\<close>), and the conversions that a cast applies to a value of a foreign type
  (\<^verbatim>\<open>toString\<close>, \<^verbatim>\<open>parseFloat\<close>, \<^verbatim>\<open>JSON.parse\<close>, \<^verbatim>\<open>Date.parse\<close>). They are
  parameters of the model.
\<close>

record yup_env =
  rEmail :: "string \<Rightarrow> bool"
  rUrl :: "string \<Rightarrow> bool"
  toNumber :: "string \<Rightarrow> jsnum"
  coerce :: "ytype \<Rightarrow> jsval \<Rightarrow> jsval"

datatype error = ValidationError "(string \<times> message) list" | TypeError

subsection \<open>Casting\<close>

text \<open>The characters below 128 that the regular expression \<^verbatim>\<open>\s\<close> matches.\<close>

definition is_space :: "char \<Rightarrow> bool" where
  "is_space c = (of_char c \<in> {9, 10, 11, 12, 13, 32 :: nat})"

text \<open>
  The transform of each schema type, applied by \<^verbatim>\<open>_cast\<close> to every value but
  \<^verbatim>\<open>undefined\<close>:
  \<^item> string: a string is returned as it is, and \<^verbatim>\<open>null\<close> stays \<^verbatim>\<open>null\<close>;
  \<^item> number: a string loses its white space, the empty string becomes NaN and any other
    is converted by \<^verbatim>\<open>+\<close>; a number stays; \<^verbatim>\<open>null\<close> becomes NaN through
    \<^verbatim>\<open>parseFloat\<close>;
  \<^item> array: an array stays, \<^verbatim>\<open>null\<close> stays \<^verbatim>\<open>null\<close>;
  \<^item> date: a valid date stays, \<^verbatim>\<open>null\<close> and the invalid date become the invalid date.

  Every other pair of a type and a value goes through a conversion of JavaScript.
\<close>

fun cast :: "yup_env \<Rightarrow> ytype \<Rightarrow> jsval \<Rightarrow> jsval" where
  "cast env ty Undefined = Undefined"
| "cast env TString (Str s) = Str s"
| "cast env TString Null = Null"
| "cast env TNumber (Str s) =
     (let parsed = filter (\<lambda>c. \<not> is_space c) s
      in if parsed = [] then Num NaN else Num (toNumber env parsed))"
| "cast env TNumber (Num n) = Num n"
| "cast env TNumber Null = Num NaN"
| "cast env TArray (Arr xs) = Arr xs"
| "cast env TArray Null = Null"
| "cast env TDate (DateV d) = DateV d"
| "cast env TDate Null = DateV InvalidDate"
| "cast env ty v = coerce env ty v"

subsection \<open>Tests\<close>

definition isAbsent :: "jsval \<Rightarrow> bool" where
  "isAbsent v = (v = Undefined \<or> v = Null)"

fun isType :: "ytype \<Rightarrow> jsval \<Rightarrow> bool" where
  "isType TString (Str s) = True"
| "isType TNumber (Num n) = (n \<noteq> NaN)"
| "isType TArray (Arr xs) = True"
| "isType TDate (DateV d) = (d \<noteq> InvalidDate)"
| "isType ty v = False"

text \<open>The type-error test fails on every value but \<^verbatim>\<open>undefined\<close> that is not of the type.\<close>

definition typeError_fails :: "ytype \<Rightarrow> jsval \<Rightarrow> bool" where
  "typeError_fails ty v = (v \<noteq> Undefined \<and> \<not> isType ty v)"

text \<open>\<^verbatim>\<open>value >= min\<close> on a number.\<close>

fun num_ge :: "jsnum \<Rightarrow> int \<Rightarrow> bool" where
  "num_ge NaN k = False"
| "num_ge (Fin r) k = (real_of_int k \<le> r)"
| "num_ge PosInf k = True"
| "num_ge NegInf k = False"

text \<open>
  \<^verbatim>\<open>required\<close> asks \<^verbatim>\<open>_isPresent\<close>: the value is neither \<^verbatim>\<open>undefined\<close> nor \<^verbatim>\<open>null\<close>,
  and a string has a length other than 0. \<^verbatim>\<open>email\<close> and \<^verbatim>\<open>url\<close> are \<^verbatim>\<open>matches\<close> with
  \<^verbatim>\<open>excludeEmptyString\<close>: an absent value and the empty string pass. \<^verbatim>\<open>min\<close> passes an
  absent value; it compares a number, and the length of an array.
\<close>

fun test_passes :: "yup_env \<Rightarrow> ytype \<Rightarrow> test \<Rightarrow> jsval \<Rightarrow> bool" where
  "test_passes env ty (Required m) v =
     (\<not> isAbsent v \<and> (case v of Str s \<Rightarrow> s \<noteq> [] | _ \<Rightarrow> True))"
| "test_passes env ty (Email m) v =
     (isAbsent v \<or> (case v of Str s \<Rightarrow> s = [] \<or> rEmail env s | _ \<Rightarrow> False))"
| "test_passes env ty (Url m) v =
     (isAbsent v \<or> (case v of Str s \<Rightarrow> s = [] \<or> rUrl env s | _ \<Rightarrow> False))"
| "test_passes env ty (MinOf k m) v =
     (isAbsent v \<or>
      (case v of
         Num n \<Rightarrow> num_ge n k
       | Arr xs \<Rightarrow> k \<le> int (length xs)
       | _ \<Rightarrow> False))"

fun test_message :: "test \<Rightarrow> message" where
  "test_message (Required m) = m"
| "test_message (Email m) = m"
| "test_message (Url m) = m"
| "test_message (MinOf k m) = m"

fun test_name :: "test \<Rightarrow> string" where
  "test_name (Required m) = ''required''"
| "test_name (Email m) = ''email''"
| "test_name (Url m) = ''url''"
| "test_name (MinOf k m) = ''min''"

fun exclusive :: "test \<Rightarrow> bool" where
  "exclusive (Required m) = True"
| "exclusive (MinOf k m) = True"
| "exclusive t = False"

subsection \<open>Building a schema\<close>

text \<open>\<^verbatim>\<open>schema.test(opts)\<close>: an exclusive test replaces the tests of its name.\<close>

definition add_test :: "test \<Rightarrow> test list \<Rightarrow> test list" where
  "add_test t ts = filter (\<lambda>u. \<not> (test_name u = test_name t \<and> exclusive t)) ts @ [t]"

definition yup_string :: schema where
  "yup_string = Schema TString (NotType TString) [] []"

definition yup_number :: schema where
  "yup_number = Schema TNumber (NotType TNumber) [] []"

definition yup_array :: schema where
  "yup_array = Schema TArray (NotType TArray) [] []"

definition yup_date :: schema where
  "yup_date = Schema TDate (NotType TDate) [] []"

fun with_test :: "test \<Rightarrow> schema \<Rightarrow> schema" where
  "with_test t (Schema ty te ts cs) = Schema ty te (add_test t ts) cs"

definition required :: "string \<Rightarrow> schema \<Rightarrow> schema" where
  "required m = with_test (Required (Msg m))"

text \<open>\<^verbatim>\<open>.email(message)\<close>; the name \<open>email\<close> is the record field.\<close>

definition email_format :: "string \<Rightarrow> schema \<Rightarrow> schema" where
  "email_format m = with_test (Email (Msg m))"

definition url :: "string \<Rightarrow> schema \<Rightarrow> schema" where
  "url m = with_test (Url (Msg m))"

text \<open>\<^verbatim>\<open>.min(k, message)\<close>.\<close>

definition min_of :: "int \<Rightarrow> string \<Rightarrow> schema \<Rightarrow> schema" where
  "min_of k m = with_test (MinOf k (Msg m))"

fun typeError :: "string \<Rightarrow> schema \<Rightarrow> schema" where
  "typeError m (Schema ty te ts cs) = Schema ty (Msg m) ts cs"

text \<open>\<^verbatim>\<open>.when(key, {is, then})\<close> appends a condition.\<close>

fun when_is :: "string \<Rightarrow> (jsval \<Rightarrow> bool) \<Rightarrow> schema \<Rightarrow> schema \<Rightarrow> schema" where
  "when_is key isf th (Schema ty te ts cs) = Schema ty te ts (cs @ [When key isf th])"

subsection \<open>Resolving the conditions\<close>

text \<open>
  \<^verbatim>\<open>base.concat(schema)\<close> throws a TypeError when the types differ; otherwise the result
  is the argument with the tests of the base before its own (each added by
  \<^verbatim>\<open>test\<close>), and with the argument's type-error test, which every schema has.
\<close>

definition concat_schema :: "schema \<Rightarrow> schema \<Rightarrow> error + schema" where
  "concat_schema base s =
     (if stype s \<noteq> stype base then Inl TypeError
      else Inr (Schema (stype s) (typeErr s)
                  (fold add_test (tests s) (tests base)) (conditions s)))"

text \<open>
  \<^verbatim>\<open>schema.resolve({value, parent})\<close> runs the conditions in their order over the schema
  without its conditions. A condition reads its key in the parent object; when \<^verbatim>\<open>is\<close>
  holds, the schema becomes its \<^verbatim>\<open>concat\<close> with the resolved \<^verbatim>\<open>then\<close> branch, and
  without an \<^verbatim>\<open>otherwise\<close> branch it stays as it is when \<^verbatim>\<open>is\<close> does not hold.
\<close>

fun resolve :: "(string \<Rightarrow> jsval) \<Rightarrow> schema \<Rightarrow> error + schema"
and resolve_conds :: "(string \<Rightarrow> jsval) \<Rightarrow> cond list \<Rightarrow> schema \<Rightarrow> error + schema"
and resolve_cond :: "(string \<Rightarrow> jsval) \<Rightarrow> cond \<Rightarrow> schema \<Rightarrow> error + schema" where
  "resolve parent (Schema ty te ts cs) = resolve_conds parent cs (Schema ty te ts [])"
| "resolve_conds parent [] acc = Inr acc"
| "resolve_conds parent (c # cs) acc =
     (case resolve_cond parent c acc of
        Inl e \<Rightarrow> Inl e
      | Inr acc' \<Rightarrow> resolve_conds parent cs acc')"
| "resolve_cond parent (When key isf th) acc =
     (if isf (parent key)
      then (case resolve parent th of
              Inl e \<Rightarrow> Inl e
            | Inr th' \<Rightarrow> concat_schema acc th')
      else Inr acc)"

subsection \<open>Validating\<close>

text \<open>
  \<^verbatim>\<open>_validate\<close> of a resolved schema on a value already cast (\<^verbatim>\<open>strict\<close>), with
  \<^verbatim>\<open>abortEarly: false\<close>: the type-error test runs first and, when it fails, is the only
  error; otherwise every test runs and every failure is reported, in the tests' order.
\<close>

definition validate_value :: "yup_env \<Rightarrow> schema \<Rightarrow> jsval \<Rightarrow> message list" where
  "validate_value env s v =
     (if typeError_fails (stype s) v then [typeErr s]
      else map test_message (filter (\<lambda>t. \<not> test_passes env (stype s) t v) (tests s)))"

text \<open>
  The object schema first casts the object: every field is cast by the transform of its
  schema's type (\<^verbatim>\<open>concat\<close> keeps the type, so a resolved schema casts as the schema
  itself). A key the object does not have reads as \<^verbatim>\<open>undefined\<close>.
\<close>

definition cast_object :: "yup_env \<Rightarrow> (string \<times> schema) list \<Rightarrow> formData \<Rightarrow> string \<Rightarrow> jsval" where
  "cast_object env flds fd k =
     (case map_of flds k of
        None \<Rightarrow> Undefined
      | Some s \<Rightarrow> cast env (stype s) (get_prop fd k))"

text \<open>
  Then every field is validated in turn: its schema is resolved against the cast object
  and run on the field's cast value, and each error carries the field's name as its
  path. An exception of \<^verbatim>\<open>resolve\<close> ends the run.
\<close>

fun validate_fields ::
  "yup_env \<Rightarrow> (string \<Rightarrow> jsval) \<Rightarrow> (string \<times> schema) list \<Rightarrow> error + (string \<times> message) list" where
  "validate_fields env value [] = Inr []"
| "validate_fields env value ((k, s) # rest) =
     (case resolve value s of
        Inl e \<Rightarrow> Inl e
      | Inr s' \<Rightarrow>
          (case validate_fields env value rest of
             Inl e \<Rightarrow> Inl e
           | Inr errs \<Rightarrow> Inr (map (Pair k) (validate_value env s' (value k)) @ errs)))"

text \<open>
  \<^verbatim>\<open>schema.validate(formData, {abortEarly: false})\<close>: the promise is fulfilled with the
  cast object when no field has an error, and rejected with a ValidationError whose
  \<^verbatim>\<open>inner\<close> lists every error otherwise.
\<close>

definition validate ::
  "yup_env \<Rightarrow> (string \<times> schema) list \<Rightarrow> formData \<Rightarrow> error + (string \<Rightarrow> jsval)" where
  "validate env flds fd =
     (let value = cast_object env flds fd
      in case validate_fields env value flds of
           Inl e \<Rightarrow> Inl e
         | Inr errs \<Rightarrow> if errs = [] then Inr value else Inl (ValidationError errs))"

section \<open>The application\<close>

text \<open>\<^verbatim>\<open>validationSchema\<close>, lines 7 to 26.\<close>

definition validationSchema :: "(string \<times> schema) list" where
  "validationSchema =
    [(''fullName'', required ''Full Name is required'' yup_string),
     (''email'',
        required ''Email is required'' (email_format ''Invalid email format'' yup_string)),
     (''phoneNumber'',
        required ''Phone Number is required''
          (typeError ''Phone Number must be a valid number'' yup_number)),
     (''position'', required ''Position is required'' yup_string),
     (''relevantExperience'',
        when_is ''position'' (\<lambda>val. val = Str ''Developer'' \<or> val = Str ''Designer'')
          (required ''Relevant Experience is required''
            (min_of 1 ''Experience must be greater than 0''
              (typeError ''Relevant Experience must be a valid number'' yup_number)))
          yup_number),
     (''portfolioURL'',
        when_is ''position'' (\<lambda>val. val = Str ''Designer'')
          (required ''Portfolio URL is required'' yup_string)
          (url ''Invalid URL'' yup_string)),
     (''managementExperience'',
        when_is ''position'' (\<lambda>val. val = Str ''Manager'')
          (required ''Management Experience is required'' yup_string)
          yup_string),
     (''additionalSkills'', min_of 1 ''At least one skill must be selected'' yup_array),
     (''interviewTime'', required ''Preferred Interview Time is required'' yup_date)]"

text \<open>The three pieces of state of the component \<^verbatim>\<open>App\<close>, lines 29 to 42.\<close>

record app_state =
  formData :: formData
  errors :: "string \<rightharpoonup> message"
  submittedData :: "formData option"

text \<open>
  \<^verbatim>\<open>handleSubmit\<close>, lines 60 to 75. When the promise is fulfilled the form data become
  the submitted data and the errors are emptied. When it is rejected the errors become
  a fresh object that takes, for each inner error in turn, the message under the path;
  an exception without \<^verbatim>\<open>inner\<close> leaves that object empty.
\<close>

definition collect :: "(string \<times> message) list \<Rightarrow> (string \<rightharpoonup> message)" where
  "collect inner = fold (\<lambda>(path, msg) validationErrors. validationErrors(path \<mapsto> msg)) inner Map.empty"

definition handleSubmit :: "yup_env \<Rightarrow> app_state \<Rightarrow> app_state" where
  "handleSubmit env st =
     (case validate env validationSchema (formData st) of
        Inr value \<Rightarrow> st\<lparr>submittedData := Some (formData st), errors := Map.empty\<rparr>
      | Inl (ValidationError inner) \<Rightarrow> st\<lparr>errors := collect inner\<rparr>
      | Inl TypeError \<Rightarrow> st\<lparr>errors := Map.empty\<rparr>)"

section \<open>Vocabulary of the specification\<close>

text \<open>The field names, in the order of the schema.\<close>

definition fieldNames :: "string list" where
  "fieldNames = map fst validationSchema"

text \<open>
  The effective constraint of a field for a record, \<^verbatim>\<open>resolveConstraint\<close> of the
  specification: the field's schema resolved against the cast record.
\<close>

definition resolveConstraint :: "yup_env \<Rightarrow> string \<Rightarrow> formData \<Rightarrow> schema option" where
  "resolveConstraint env k fd =
     (case map_of validationSchema k of
        None \<Rightarrow> None
      | Some s \<Rightarrow>
          (case resolve (cast_object env validationSchema fd) s of
             Inl e \<Rightarrow> None
           | Inr s' \<Rightarrow> Some s'))"

text \<open>
  \<open>field_errors\<close> are the messages the effective constraint reports on the field's cast
  value; it rejects the value when there is one.
\<close>

definition field_errors :: "yup_env \<Rightarrow> formData \<Rightarrow> string \<Rightarrow> message list" where
  "field_errors env fd k =
     (case resolveConstraint env k fd of
        None \<Rightarrow> []
      | Some s \<Rightarrow> validate_value env s (cast_object env validationSchema fd k))"

definition rejects :: "yup_env \<Rightarrow> formData \<Rightarrow> string \<Rightarrow> bool" where
  "rejects env fd k = (field_errors env fd k \<noteq> [])"

text \<open>
  The constraint sequence of a schema is its type-error test followed by its tests.
  \<open>violated_messages\<close> evaluates every one of them on its own and lists the messages
  of those the value violates, in the order of the sequence.
\<close>

definition violated_messages :: "yup_env \<Rightarrow> schema \<Rightarrow> jsval \<Rightarrow> message list" where
  "violated_messages env s v =
     (if typeError_fails (stype s) v then [typeErr s] else []) @
     map test_message (filter (\<lambda>t. \<not> test_passes env (stype s) t v) (tests s))"

definition field_violations :: "yup_env \<Rightarrow> formData \<Rightarrow> string \<Rightarrow> message list" where
  "field_violations env fd k =
     (case resolveConstraint env k fd of
        None \<Rightarrow> []
      | Some s \<Rightarrow> violated_messages env s (cast_object env validationSchema fd k))"

text \<open>The inner errors of a record: each field's errors under its path, field after field.\<close>

definition inner_errors :: "yup_env \<Rightarrow> formData \<Rightarrow> (string \<times> message) list" where
  "inner_errors env fd = concat (map (\<lambda>k. map (Pair k) (field_errors env fd k)) fieldNames)"

section \<open>Sample data\<close>

text \<open>
  An interpretation of the parameters, to evaluate the model on records: an e-mail
  address has an \<^verbatim>\<open>@\<close>, a URL starts with \<^verbatim>\<open>http://\<close> or \<^verbatim>\<open>https://\<close>, a string of
  decimal digits is its number and any other string is NaN, and a value of a foreign
  type is left as it is. On the strings used below it agrees with the library.
\<close>

definition digits_value :: "string \<Rightarrow> nat" where
  "digits_value s = fold (\<lambda>c n. 10 * n + (of_char c - 48)) s 0"

definition sample_env :: yup_env where
  "sample_env =
     \<lparr>rEmail = (\<lambda>s. CHR ''@'' \<in> set s),
      rUrl = (\<lambda>s. take 7 s = ''http://'' \<or> take 8 s = ''https://''),
      toNumber =
        (\<lambda>s. if s \<noteq> [] \<and> list_all (\<lambda>c. 48 \<le> (of_char c :: nat) \<and> (of_char c :: nat) \<le> 57) s
              then Fin (real (digits_value s)) else NaN),
      coerce = (\<lambda>ty v. v)\<rparr>"

text \<open>The form as it is first rendered (lines 29 to 39), and a filled form of a developer.\<close>

definition initial_form :: formData where
  "initial_form =
     \<lparr>fullName = Str [], email = Str [], phoneNumber = Str [], position = Str [],
      relevantExperience = Str [], portfolioURL = Str [], managementExperience = Str [],
      additionalSkills = Arr [], interviewTime = DateV (DateAt 0)\<rparr>"

definition developer_form :: formData where
  "developer_form =
     \<lparr>fullName = Str ''Ada'', email = Str ''ada@x.com'', phoneNumber = Str ''5551234'',
      position = Str ''Developer'', relevantExperience = Str ''3'', portfolioURL = Str [],
      managementExperience = Str [], additionalSkills = Arr [Str ''CSS''],
      interviewTime = DateV (DateAt 0)\<rparr>"

definition state_of :: "formData \<Rightarrow> app_state" where
  "state_of fd = \<lparr>formData = fd, errors = Map.empty, submittedData = None\<rparr>"

section \<open>The effective constraints and the error mapping\<close>

lemmas builder_defs = required_def email_format_def url_def min_of_def
  yup_string_def yup_number_def yup_array_def yup_date_def add_test_def concat_schema_def

lemmas lookup_defs = resolveConstraint_def cast_object_def validationSchema_def get_prop_def

lemma rc_fullName:
  "resolveConstraint env ''fullName'' fd =
     Some (Schema TString (NotType TString) [Required (Msg ''Full Name is required'')] [])"
  by (simp add: lookup_defs builder_defs)

lemma rc_email:
  "resolveConstraint env ''email'' fd =
     Some (Schema TString (NotType TString)
             [Email (Msg ''Invalid email format''), Required (Msg ''Email is required'')] [])"
  by (simp add: lookup_defs builder_defs)

lemma rc_phoneNumber:
  "resolveConstraint env ''phoneNumber'' fd =
     Some (Schema TNumber (Msg ''Phone Number must be a valid number'')
             [Required (Msg ''Phone Number is required'')] [])"
  by (simp add: lookup_defs builder_defs)

lemma rc_position:
  "resolveConstraint env ''position'' fd =
     Some (Schema TString (NotType TString) [Required (Msg ''Position is required'')] [])"
  by (simp add: lookup_defs builder_defs)

lemma rc_relevantExperience:
  "resolveConstraint env ''relevantExperience'' fd =
     Some (if cast env TString (position fd) = Str ''Developer''
              \<or> cast env TString (position fd) = Str ''Designer''
           then Schema TNumber (Msg ''Relevant Experience must be a valid number'')
                  [MinOf 1 (Msg ''Experience must be greater than 0''),
                   Required (Msg ''Relevant Experience is required'')] []
           else Schema TNumber (NotType TNumber) [] [])"
  by (simp add: lookup_defs builder_defs)

lemma rc_portfolioURL:
  "resolveConstraint env ''portfolioURL'' fd =
     Some (if cast env TString (position fd) = Str ''Designer''
           then Schema TString (NotType TString)
                  [Url (Msg ''Invalid URL''), Required (Msg ''Portfolio URL is required'')] []
           else Schema TString (NotType TString) [Url (Msg ''Invalid URL'')] [])"
  by (simp add: lookup_defs builder_defs)

lemma rc_managementExperience:
  "resolveConstraint env ''managementExperience'' fd =
     Some (if cast env TString (position fd) = Str ''Manager''
           then Schema TString (NotType TString)
                  [Required (Msg ''Management Experience is required'')] []
           else Schema TString (NotType TString) [] [])"
  by (simp add: lookup_defs builder_defs)

lemma rc_additionalSkills:
  "resolveConstraint env ''additionalSkills'' fd =
     Some (Schema TArray (NotType TArray)
             [MinOf 1 (Msg ''At least one skill must be selected'')] [])"
  by (simp add: lookup_defs builder_defs)

lemma rc_interviewTime:
  "resolveConstraint env ''interviewTime'' fd =
     Some (Schema TDate (NotType TDate)
             [Required (Msg ''Preferred Interview Time is required'')] [])"
  by (simp add: lookup_defs builder_defs)

lemma cast_object_fields:
  "cast_object env validationSchema fd ''fullName'' = cast env TString (fullName fd)"
  "cast_object env validationSchema fd ''email'' = cast env TString (email fd)"
  "cast_object env validationSchema fd ''phoneNumber'' = cast env TNumber (phoneNumber fd)"
  "cast_object env validationSchema fd ''position'' = cast env TString (position fd)"
  "cast_object env validationSchema fd ''relevantExperience'' = cast env TNumber (relevantExperience fd)"
  "cast_object env validationSchema fd ''portfolioURL'' = cast env TString (portfolioURL fd)"
  "cast_object env validationSchema fd ''managementExperience'' = cast env TString (managementExperience fd)"
  "cast_object env validationSchema fd ''additionalSkills'' = cast env TArray (additionalSkills fd)"
  "cast_object env validationSchema fd ''interviewTime'' = cast env TDate (interviewTime fd)"
  by (simp_all add: lookup_defs builder_defs)

lemma fieldNames_eq:
  "fieldNames = [''fullName'', ''email'', ''phoneNumber'', ''position'', ''relevantExperience'',
     ''portfolioURL'', ''managementExperience'', ''additionalSkills'', ''interviewTime'']"
  by (simp add: fieldNames_def validationSchema_def)

lemma rc_unknown:
  assumes "k \<notin> set fieldNames"
  shows "resolveConstraint env k fd = None"
proof -
  have "map_of validationSchema k = None"
    using assms by (simp add: fieldNames_def map_of_eq_None_iff)
  then show ?thesis by (simp add: resolveConstraint_def)
qed

lemma field_errors_unknown: "k \<notin> set fieldNames \<Longrightarrow> field_errors env fd k = []"
  by (simp add: field_errors_def rc_unknown)

lemma validate_fields_schema:
  "validate_fields env (cast_object env validationSchema fd) validationSchema =
     Inr (inner_errors env fd)"
  by (simp add: inner_errors_def fieldNames_def field_errors_def resolveConstraint_def
      validationSchema_def builder_defs cast_object_def)

lemma handleSubmit_eq:
  "handleSubmit env st =
     (if inner_errors env (formData st) = []
      then st\<lparr>submittedData := Some (formData st), errors := Map.empty\<rparr>
      else st\<lparr>errors := collect (inner_errors env (formData st))\<rparr>)"
  by (simp add: handleSubmit_def validate_def validate_fields_schema)

lemma fold_update_lookup:
  "fold (\<lambda>(path, msg) ve. ve(path \<mapsto> msg)) inner m k =
     (case filter (\<lambda>e. fst e = k) inner of
        [] \<Rightarrow> m k
      | e # es \<Rightarrow> Some (snd (last (e # es))))"
proof (induction inner arbitrary: m)
  case Nil
  then show ?case by simp
next
  case (Cons a inner)
  then show ?case by (cases a) (auto split: list.splits)
qed

lemma collect_lookup:
  "collect inner k =
     (case filter (\<lambda>e. fst e = k) inner of
        [] \<Rightarrow> None
      | e # es \<Rightarrow> Some (snd (last (e # es))))"
  by (simp add: collect_def fold_update_lookup)

lemma collect_nonempty:
  assumes "inner \<noteq> []"
  shows "collect inner \<noteq> Map.empty"
proof -
  obtain e es where "inner = e # es"
    using assms by (cases inner) auto
  then have "collect inner (fst e) \<noteq> None"
    by (simp add: collect_lookup)
  then show ?thesis by auto
qed

lemma filter_paths:
  assumes "distinct ks"
  shows "filter (\<lambda>e. fst e = k) (concat (map (\<lambda>j. map (Pair j) (f j)) ks)) =
           (if k \<in> set ks then map (Pair k) (f k) else [])"
  using assms
proof (induction ks)
  case Nil
  then show ?case by simp
next
  case (Cons j ks)
  have own: "filter (\<lambda>e. fst e = k) (map (Pair j) (f j)) = (if j = k then map (Pair j) (f j) else [])"
    by (induction "f j") auto
  from Cons show ?case by (auto simp: own)
qed

lemma distinct_fieldNames: "distinct fieldNames"
  by (simp add: fieldNames_eq)

lemma inner_errors_at:
  "filter (\<lambda>e. fst e = k) (inner_errors env fd) = map (Pair k) (field_errors env fd k)"
proof (cases "k \<in> set fieldNames")
  case True
  then show ?thesis
    unfolding inner_errors_def by (simp add: filter_paths [OF distinct_fieldNames])
next
  case False
  then show ?thesis
    unfolding inner_errors_def
    by (simp add: filter_paths [OF distinct_fieldNames] field_errors_unknown)
qed

lemma inner_errors_Nil:
  "inner_errors env fd = [] \<longleftrightarrow> (\<forall>k \<in> set fieldNames. field_errors env fd k = [])"
  by (auto simp: inner_errors_def)

lemma errors_handleSubmit:
  "errors (handleSubmit env st) k =
     (case field_errors env (formData st) k of
        [] \<Rightarrow> None
      | m # ms \<Rightarrow> Some (last (m # ms)))"
proof (cases "inner_errors env (formData st) = []")
  case True
  then have "field_errors env (formData st) k = []"
    using inner_errors_at [of k env "formData st"] by simp
  with True show ?thesis by (simp add: handleSubmit_eq)
next
  case False
  then have "errors (handleSubmit env st) k = collect (inner_errors env (formData st)) k"
    by (simp add: handleSubmit_eq)
  then show ?thesis
    by (simp add: collect_lookup inner_errors_at last_map split: list.splits)
qed


lemmas rc_fields = rc_fullName rc_email rc_phoneNumber rc_position rc_relevantExperience
  rc_portfolioURL rc_managementExperience rc_additionalSkills rc_interviewTime

lemmas value_defs = validate_value_def violated_messages_def typeError_fails_def isAbsent_def

lemmas sample_defs = sample_env_def initial_form_def developer_form_def state_of_def
  is_space_def digits_value_def

lemma first_string:
  "validate_value env (Schema TString te [] []) v =
     take 1 (violated_messages env (Schema TString te [] []) v)"
  by (cases v) (auto simp: value_defs)

lemma first_required:
  "validate_value env (Schema ty te [Required m] []) v =
     take 1 (violated_messages env (Schema ty te [Required m] []) v)"
  by (cases v) (auto simp: value_defs)

lemma first_email_required:
  "validate_value env (Schema TString te [Email m, Required m'] []) v =
     take 1 (violated_messages env (Schema TString te [Email m, Required m'] []) v)"
  by (cases v) (auto simp: value_defs)

lemma first_url_required:
  "validate_value env (Schema TString te [Url m, Required m'] []) v =
     take 1 (violated_messages env (Schema TString te [Url m, Required m'] []) v)"
  by (cases v) (auto simp: value_defs)

lemma first_url:
  "validate_value env (Schema TString te [Url m] []) v =
     take 1 (violated_messages env (Schema TString te [Url m] []) v)"
  by (cases v) (auto simp: value_defs)

lemma first_number:
  "validate_value env (Schema TNumber te [] []) v =
     take 1 (violated_messages env (Schema TNumber te [] []) v)"
  by (cases v) (auto simp: value_defs)

lemma first_min_required:
  "validate_value env (Schema TNumber te [MinOf k m, Required m'] []) v =
     take 1 (violated_messages env (Schema TNumber te [MinOf k m, Required m'] []) v)"
  by (cases v) (auto simp: value_defs)

lemma first_min:
  "validate_value env (Schema TArray te [MinOf k m] []) v =
     take 1 (violated_messages env (Schema TArray te [MinOf k m] []) v)"
  by (cases v) (auto simp: value_defs)

lemmas first_schemas = first_string first_required first_email_required first_url_required
  first_url first_number first_min_required first_min

lemma field_errors_first_known:
  "\<forall>k \<in> set fieldNames. field_errors env fd k = take 1 (field_violations env fd k)"
  by (simp add: fieldNames_eq field_errors_def field_violations_def rc_fields first_schemas)

lemma field_violations_unknown: "k \<notin> set fieldNames \<Longrightarrow> field_violations env fd k = []"
  by (simp add: field_violations_def rc_unknown)

lemma field_errors_first:
  "field_errors env fd k = take 1 (field_violations env fd k)"
  by (cases "k \<in> set fieldNames")
     (simp_all add: field_errors_first_known field_errors_unknown field_violations_unknown)

lemma validate_result:
  "validate env validationSchema fd =
     (if inner_errors env fd = [] then Inr (cast_object env validationSchema fd)
      else Inl (ValidationError (inner_errors env fd)))"
  by (simp add: validate_def validate_fields_schema)

lemma errors_one:
  "errors (handleSubmit env st) k =
     (case field_errors env (formData st) k of [] \<Rightarrow> None | m # ms \<Rightarrow> Some m)"
proof -
  have "length (field_errors env (formData st) k) \<le> 1"
    by (simp add: field_errors_first)
  then show ?thesis
    by (cases "field_errors env (formData st) k") (simp_all add: errors_handleSubmit)
qed

lemma dom_errors:
  "dom (errors (handleSubmit env st)) = set (filter (rejects env (formData st)) fieldNames)"
proof -
  have "k \<in> dom (errors (handleSubmit env st)) \<longleftrightarrow>
        k \<in> set (filter (rejects env (formData st)) fieldNames)" for k
  proof (cases "k \<in> set fieldNames")
    case True
    then show ?thesis
      by (auto simp: errors_one rejects_def dom_def split: list.splits)
  next
    case False
    then show ?thesis
      by (simp add: errors_one field_errors_unknown dom_def)
  qed
  then show ?thesis by blast
qed

section \<open>The claims\<close>

text \<open>
  Claim C1. For every record, the error mapping that \<^verbatim>\<open>handleSubmit\<close> builds has an
  entry for a name if and only if the name is a field whose effective constraint rejects
  the field's value, and the number of entries is the number of rejecting fields: every
  field is evaluated, whatever the fields before it gave.
\<close>

theorem error_mapping_iff_rejects:
  "(errors (handleSubmit env st) k \<noteq> None \<longleftrightarrow>
      k \<in> set fieldNames \<and> rejects env (formData st) k) \<and>
   card (dom (errors (handleSubmit env st))) =
     length (filter (rejects env (formData st)) fieldNames)"
proof
  show "errors (handleSubmit env st) k \<noteq> None \<longleftrightarrow>
      k \<in> set fieldNames \<and> rejects env (formData st) k"
    using dom_errors [of env st] by (auto simp: dom_def)
  have "distinct (filter (rejects env (formData st)) fieldNames)"
    using distinct_fieldNames by simp
  then show "card (dom (errors (handleSubmit env st))) =
     length (filter (rejects env (formData st)) fieldNames)"
    using distinct_card [of "filter (rejects env (formData st)) fieldNames"]
    by (simp only: dom_errors)
qed

lemmas eval_defs = rejects_def field_errors_def field_violations_def rc_fields
  cast_object_fields value_defs sample_defs

lemma rejects_initial:
  "filter (rejects sample_env initial_form) fieldNames =
     [''fullName'', ''email'', ''phoneNumber'', ''position'', ''relevantExperience'',
      ''additionalSkills'']"
  by (simp add: fieldNames_eq eval_defs)

theorem error_mapping_iff_rejects_witness:
  "errors (handleSubmit sample_env (state_of initial_form)) ''email'' \<noteq> None \<and>
   errors (handleSubmit sample_env (state_of initial_form)) ''interviewTime'' = None \<and>
   card (dom (errors (handleSubmit sample_env (state_of initial_form)))) = 6"
proof -
  have fd: "formData (state_of initial_form) = initial_form"
    by (simp add: state_of_def)
  have "rejects sample_env initial_form ''email''"
    by (simp add: eval_defs)
  moreover have "\<not> rejects sample_env initial_form ''interviewTime''"
    by (simp add: eval_defs)
  moreover have "''email'' \<in> set fieldNames"
    by (simp add: fieldNames_eq)
  ultimately show ?thesis
    using error_mapping_iff_rejects [of sample_env "state_of initial_form" "''email''"]
      error_mapping_iff_rejects [of sample_env "state_of initial_form" "''interviewTime''"]
    by (simp add: fd rejects_initial)
qed

text \<open>
  Claim C2. When no field's effective constraint rejects its value, the validation
  succeeds, the submitted record is the input record itself and the error mapping is
  empty.
\<close>

theorem all_valid_success:
  assumes "\<forall>k \<in> set fieldNames. \<not> rejects env (formData st) k"
  shows "handleSubmit env st = st\<lparr>submittedData := Some (formData st), errors := Map.empty\<rparr> \<and>
         (\<exists>value. validate env validationSchema (formData st) = Inr value)"
proof -
  have "inner_errors env (formData st) = []"
    using assms by (simp add: inner_errors_Nil rejects_def)
  then show ?thesis
    by (simp add: handleSubmit_eq validate_result)
qed

theorem all_valid_success_witness:
  "submittedData (handleSubmit sample_env (state_of developer_form)) = Some developer_form \<and>
   errors (handleSubmit sample_env (state_of developer_form)) = Map.empty"
proof -
  have fd: "formData (state_of developer_form) = developer_form"
    by (simp add: state_of_def)
  have "\<forall>k \<in> set fieldNames. \<not> rejects sample_env (formData (state_of developer_form)) k"
    unfolding fd by (simp add: fieldNames_eq eval_defs)
  from all_valid_success [OF this] show ?thesis
    by (simp add: fd)
qed

lemma errors_portfolioURL:
  assumes "portfolioURL (formData st) = Str s"
  shows "errors (handleSubmit env st) ''portfolioURL'' =
     (if cast env TString (position (formData st)) = Str ''Designer'' \<and> s = []
        then Some (Msg ''Portfolio URL is required'')
      else if s = [] \<or> rUrl env s then None
      else Some (Msg ''Invalid URL''))"
  using assms
  by (simp add: errors_one field_errors_def rc_portfolioURL cast_object_fields value_defs)

text \<open>
  Claim C3, as stated: with position \<^verbatim>\<open>Developer\<close> the field \<^verbatim>\<open>portfolioURL\<close> never has
  an error, whatever its value. The schema keeps the rule \<^verbatim>\<open>url('Invalid URL')\<close> outside
  of \<^verbatim>\<open>when\<close>, so a text that is not a URL has the error for every position.
\<close>

theorem developer_portfolioURL_counterexample:
  "position (developer_form\<lparr>portfolioURL := Str ''not a url''\<rparr>) = Str ''Developer'' \<and>
   errors (handleSubmit sample_env (state_of (developer_form\<lparr>portfolioURL := Str ''not a url''\<rparr>)))
     ''portfolioURL'' = Some (Msg ''Invalid URL'')"
  by (simp add: errors_portfolioURL sample_defs)

text \<open>
  Claim C3, amended: with position \<^verbatim>\<open>Developer\<close> the field \<^verbatim>\<open>portfolioURL\<close> is never
  required, and its base rule still applies: an absent value, the empty text and a text
  that matches the URL pattern have no error, and any other text has \<^verbatim>\<open>Invalid URL\<close>.
\<close>

theorem developer_portfolioURL:
  assumes "position (formData st) = Str ''Developer''"
  shows "(portfolioURL (formData st) = Undefined \<longrightarrow>
            errors (handleSubmit env st) ''portfolioURL'' = None) \<and>
         (\<forall>s. portfolioURL (formData st) = Str s \<longrightarrow>
            errors (handleSubmit env st) ''portfolioURL'' =
              (if s = [] \<or> rUrl env s then None else Some (Msg ''Invalid URL'')))"
  using assms
  by (auto simp: errors_portfolioURL errors_one field_errors_def rc_portfolioURL
      cast_object_fields value_defs)

theorem developer_portfolioURL_witness:
  "errors (handleSubmit sample_env (state_of developer_form)) ''portfolioURL'' = None \<and>
   errors (handleSubmit sample_env
      (state_of (developer_form\<lparr>portfolioURL := Str ''http://ada.dev''\<rparr>))) ''portfolioURL'' = None \<and>
   errors (handleSubmit sample_env
      (state_of (developer_form\<lparr>portfolioURL := Str ''ada''\<rparr>))) ''portfolioURL'' =
      Some (Msg ''Invalid URL'')"
  using developer_portfolioURL [of "state_of developer_form" sample_env]
    developer_portfolioURL [of "state_of (developer_form\<lparr>portfolioURL := Str ''http://ada.dev''\<rparr>)" sample_env]
    developer_portfolioURL [of "state_of (developer_form\<lparr>portfolioURL := Str ''ada''\<rparr>)" sample_env]
  by (simp add: sample_defs)

lemma errors_relevantExperience_base:
  assumes "cast env TString (position (formData st)) \<noteq> Str ''Developer''"
      and "cast env TString (position (formData st)) \<noteq> Str ''Designer''"
  shows "errors (handleSubmit env st) ''relevantExperience'' =
     (if typeError_fails TNumber (cast env TNumber (relevantExperience (formData st)))
      then Some (NotType TNumber) else None)"
  using assms
  by (simp add: errors_one field_errors_def rc_relevantExperience cast_object_fields
      validate_value_def)

lemma errors_managementExperience:
  assumes "position (formData st) = Str ''Manager''"
      and "managementExperience (formData st) = Str s"
  shows "errors (handleSubmit env st) ''managementExperience'' =
     (if s = [] then Some (Msg ''Management Experience is required'') else None)"
  using assms
  by (simp add: errors_one field_errors_def rc_managementExperience cast_object_fields value_defs)

text \<open>
  Claim C4, as stated: with position \<^verbatim>\<open>Manager\<close> and an empty
  \<^verbatim>\<open>managementExperience\<close>, neither \<^verbatim>\<open>relevantExperience\<close> nor \<^verbatim>\<open>portfolioURL\<close> has an
  error, whatever they hold. The form as first rendered with the position set to
  \<^verbatim>\<open>Manager\<close> has an error for \<^verbatim>\<open>relevantExperience\<close> (the base schema
  \<^verbatim>\<open>yup.number()\<close> casts the empty text to NaN), and a text that is not a URL has an
  error for \<^verbatim>\<open>portfolioURL\<close>.
\<close>

theorem manager_counterexample:
  "errors (handleSubmit sample_env (state_of (initial_form\<lparr>position := Str ''Manager''\<rparr>)))
     ''relevantExperience'' = Some (NotType TNumber) \<and>
   errors (handleSubmit sample_env
      (state_of (initial_form\<lparr>position := Str ''Manager'', portfolioURL := Str ''not a url''\<rparr>)))
     ''portfolioURL'' = Some (Msg ''Invalid URL'')"
  by (simp add: errors_portfolioURL errors_relevantExperience_base typeError_fails_def sample_defs)

text \<open>
  Claim C4, amended: with position \<^verbatim>\<open>Manager\<close> and an empty
  \<^verbatim>\<open>managementExperience\<close>, that field has the error
  \<^verbatim>\<open>Management Experience is required\<close>; \<^verbatim>\<open>portfolioURL\<close> has no error when its text is
  empty or matches the URL pattern and has \<^verbatim>\<open>Invalid URL\<close> otherwise; and
  \<^verbatim>\<open>relevantExperience\<close> has no error when its value casts to a number.
\<close>

theorem manager_empty_managementExperience:
  assumes "position (formData st) = Str ''Manager''"
      and "managementExperience (formData st) = Str []"
  shows "errors (handleSubmit env st) ''managementExperience'' =
           Some (Msg ''Management Experience is required'') \<and>
         (\<forall>u. portfolioURL (formData st) = Str u \<longrightarrow>
            errors (handleSubmit env st) ''portfolioURL'' =
              (if u = [] \<or> rUrl env u then None else Some (Msg ''Invalid URL''))) \<and>
         (isType TNumber (cast env TNumber (relevantExperience (formData st))) \<longrightarrow>
            errors (handleSubmit env st) ''relevantExperience'' = None)"
  using assms
  by (simp add: errors_portfolioURL errors_relevantExperience_base errors_managementExperience
      typeError_fails_def)

theorem manager_empty_managementExperience_witness:
  "errors (handleSubmit sample_env
      (state_of (developer_form\<lparr>position := Str ''Manager''\<rparr>))) ''managementExperience'' =
      Some (Msg ''Management Experience is required'') \<and>
   errors (handleSubmit sample_env
      (state_of (developer_form\<lparr>position := Str ''Manager''\<rparr>))) ''portfolioURL'' = None \<and>
   errors (handleSubmit sample_env
      (state_of (developer_form\<lparr>position := Str ''Manager''\<rparr>))) ''relevantExperience'' = None"
  using manager_empty_managementExperience
    [of "state_of (developer_form\<lparr>position := Str ''Manager''\<rparr>)" sample_env]
  by (simp add: sample_defs)

text \<open>
  Claim C5. With position \<^verbatim>\<open>Designer\<close> the effective constraint of \<^verbatim>\<open>portfolioURL\<close> is
  the URL rule followed by the required rule: the empty text has the error
  \<^verbatim>\<open>Portfolio URL is required\<close>, the text \<^verbatim>\<open>https://x.com\<close>, which the URL pattern
  matches, has none, and in general a text has no error exactly when it is not empty and
  matches the pattern.
\<close>

theorem designer_portfolioURL:
  assumes "position (formData st) = Str ''Designer''"
  shows "resolveConstraint env ''portfolioURL'' (formData st) =
           Some (Schema TString (NotType TString)
                   [Url (Msg ''Invalid URL''), Required (Msg ''Portfolio URL is required'')] []) \<and>
         (portfolioURL (formData st) = Str [] \<longrightarrow>
            errors (handleSubmit env st) ''portfolioURL'' = Some (Msg ''Portfolio URL is required'')) \<and>
         (portfolioURL (formData st) = Str ''https://x.com'' \<and> rUrl env ''https://x.com'' \<longrightarrow>
            errors (handleSubmit env st) ''portfolioURL'' = None) \<and>
         (\<forall>s. portfolioURL (formData st) = Str s \<longrightarrow>
            (errors (handleSubmit env st) ''portfolioURL'' = None) = (s \<noteq> [] \<and> rUrl env s))"
  using assms
  by (auto simp: errors_portfolioURL rc_portfolioURL)

theorem designer_portfolioURL_witness:
  "errors (handleSubmit sample_env
      (state_of (developer_form\<lparr>position := Str ''Designer''\<rparr>))) ''portfolioURL'' =
      Some (Msg ''Portfolio URL is required'') \<and>
   errors (handleSubmit sample_env
      (state_of (developer_form\<lparr>position := Str ''Designer'', portfolioURL := Str ''https://x.com''\<rparr>)))
      ''portfolioURL'' = None"
  using designer_portfolioURL [of "state_of (developer_form\<lparr>position := Str ''Designer''\<rparr>)" sample_env]
    designer_portfolioURL
      [of "state_of (developer_form\<lparr>position := Str ''Designer'', portfolioURL := Str ''https://x.com''\<rparr>)"
          sample_env]
  by (simp add: sample_defs)

text \<open>
  Claim C6. For every record and every field that violates more than one constraint of
  its effective constraint's sequence, the field has exactly one error, and the error
  mapping holds for it the message of the first violated constraint of the sequence.
\<close>
theorem first_violation_reported:
  assumes "1 < length (field_violations env (formData st) k)"
  shows "field_errors env (formData st) k = [hd (field_violations env (formData st) k)] \<and>
         errors (handleSubmit env st) k = Some (hd (field_violations env (formData st) k))"
proof -
  obtain m ms where "field_violations env (formData st) k = m # ms"
    using assms by (cases "field_violations env (formData st) k") auto
  then have "field_errors env (formData st) k = [m]"
    by (simp add: field_errors_first)
  with \<open>field_violations env (formData st) k = m # ms\<close> show ?thesis
    by (simp add: errors_one)
qed

theorem first_violation_reported_witness:
  "field_violations sample_env (developer_form\<lparr>relevantExperience := Str ''abc''\<rparr>)
      ''relevantExperience'' =
     [Msg ''Relevant Experience must be a valid number'', Msg ''Experience must be greater than 0''] \<and>
   errors (handleSubmit sample_env (state_of (developer_form\<lparr>relevantExperience := Str ''abc''\<rparr>)))
      ''relevantExperience'' = Some (Msg ''Relevant Experience must be a valid number'')"
proof -
  have v: "field_violations sample_env (developer_form\<lparr>relevantExperience := Str ''abc''\<rparr>)
      ''relevantExperience'' =
     [Msg ''Relevant Experience must be a valid number'', Msg ''Experience must be greater than 0'']"
    by (simp add: eval_defs)
  have fd: "formData (state_of (developer_form\<lparr>relevantExperience := Str ''abc''\<rparr>)) =
      developer_form\<lparr>relevantExperience := Str ''abc''\<rparr>"
    by (simp add: state_of_def)
  have "1 < length (field_violations sample_env
      (formData (state_of (developer_form\<lparr>relevantExperience := Str ''abc''\<rparr>))) ''relevantExperience'')"
    by (simp add: fd v)
  from first_violation_reported [OF this] show ?thesis
    by (simp add: fd v)
qed

lemma errors_relevantExperience_then:
  assumes "position (formData st) = Str ''Developer'' \<or> position (formData st) = Str ''Designer''"
  shows "errors (handleSubmit env st) ''relevantExperience'' =
     (case cast env TNumber (relevantExperience (formData st)) of
        Undefined \<Rightarrow> Some (Msg ''Relevant Experience is required'')
      | Num n \<Rightarrow>
          (if n = NaN then Some (Msg ''Relevant Experience must be a valid number'')
           else if num_ge n 1 then None
           else Some (Msg ''Experience must be greater than 0''))
      | _ \<Rightarrow> Some (Msg ''Relevant Experience must be a valid number''))"
  using assms
  by (auto simp: errors_one field_errors_def rc_relevantExperience cast_object_fields value_defs
      split: jsval.splits)

text \<open>
  Claim C7. The validation always ends in a result: the cast record, and then the form
  data are submitted and the error mapping is empty; or a ValidationError with at least
  one inner error, which \<^verbatim>\<open>handleSubmit\<close> catches and turns into an error mapping that
  is not empty. No other exception leaves the validation. For a
  record with position \<^verbatim>\<open>Developer\<close> and \<^verbatim>\<open>relevantExperience\<close> the text \<^verbatim>\<open>abc\<close>, which
  JavaScript converts to NaN, the result is a ValidationError and the error mapping has
  the type-error message of \<^verbatim>\<open>relevantExperience\<close>.
\<close>
theorem validation_failures_are_results:
  "((\<exists>value. validate env validationSchema (formData st) = Inr value \<and>
       handleSubmit env st = st\<lparr>submittedData := Some (formData st), errors := Map.empty\<rparr>) \<or>
    (\<exists>inner. inner \<noteq> [] \<and> validate env validationSchema (formData st) = Inl (ValidationError inner) \<and>
       handleSubmit env st = st\<lparr>errors := collect inner\<rparr> \<and> collect inner \<noteq> Map.empty)) \<and>
   (position (formData st) = Str ''Developer'' \<and> relevantExperience (formData st) = Str ''abc''
      \<and> toNumber env ''abc'' = NaN \<longrightarrow>
    errors (handleSubmit env st) ''relevantExperience'' =
      Some (Msg ''Relevant Experience must be a valid number'') \<and>
    (\<exists>inner. validate env validationSchema (formData st) = Inl (ValidationError inner)))"
proof (intro conjI impI)
  show "(\<exists>value. validate env validationSchema (formData st) = Inr value \<and>
       handleSubmit env st = st\<lparr>submittedData := Some (formData st), errors := Map.empty\<rparr>) \<or>
    (\<exists>inner. inner \<noteq> [] \<and> validate env validationSchema (formData st) = Inl (ValidationError inner) \<and>
       handleSubmit env st = st\<lparr>errors := collect inner\<rparr> \<and> collect inner \<noteq> Map.empty)"
  proof (cases "inner_errors env (formData st) = []")
    case True
    then show ?thesis by (simp add: validate_result handleSubmit_eq)
  next
    case False
    then have "collect (inner_errors env (formData st)) \<noteq> Map.empty"
      by (simp add: collect_nonempty)
    with False show ?thesis by (simp add: validate_result handleSubmit_eq)
  qed
next
  assume a: "position (formData st) = Str ''Developer'' \<and> relevantExperience (formData st) = Str ''abc''
      \<and> toNumber env ''abc'' = NaN"
  have "filter (\<lambda>c. \<not> is_space c) ''abc'' = ''abc''"
    by (simp add: is_space_def)
  with a have c: "cast env TNumber (relevantExperience (formData st)) = Num NaN"
    by (simp add: Let_def)
  from a have p: "position (formData st) = Str ''Developer''"
    by simp
  show e: "errors (handleSubmit env st) ''relevantExperience'' =
      Some (Msg ''Relevant Experience must be a valid number'')"
    by (simp add: errors_relevantExperience_then p c)
  have "inner_errors env (formData st) \<noteq> []"
  proof
    assume "inner_errors env (formData st) = []"
    then have "errors (handleSubmit env st) = Map.empty"
      by (simp add: handleSubmit_eq)
    with e show False by simp
  qed
  then show "\<exists>inner. validate env validationSchema (formData st) = Inl (ValidationError inner)"
    by (simp add: validate_result)
qed

theorem validation_failures_are_results_witness:
  "errors (handleSubmit sample_env (state_of (developer_form\<lparr>relevantExperience := Str ''abc''\<rparr>)))
      ''relevantExperience'' = Some (Msg ''Relevant Experience must be a valid number'')"
  using validation_failures_are_results
    [of sample_env "state_of (developer_form\<lparr>relevantExperience := Str ''abc''\<rparr>)"]
  by (simp add: sample_defs)

lemma errors_additionalSkills:
  assumes "additionalSkills (formData st) = Arr xs"
  shows "errors (handleSubmit env st) ''additionalSkills'' =
     (if xs = [] then Some (Msg ''At least one skill must be selected'') else None)"
  using assms
  by (cases xs)
     (simp_all add: errors_one field_errors_def rc_additionalSkills cast_object_fields value_defs)

text \<open>
  Claim C8. For every record, whatever its position: the empty array of
  \<^verbatim>\<open>additionalSkills\<close> has the error \<^verbatim>\<open>At least one skill must be selected\<close>, the array
  with the one skill \<^verbatim>\<open>CSS\<close> has none, and neither has any array that is not empty,
  however long.
\<close>
theorem additionalSkills_minimum:
  "(additionalSkills (formData st) = Arr [] \<longrightarrow>
      errors (handleSubmit env st) ''additionalSkills'' =
        Some (Msg ''At least one skill must be selected'')) \<and>
   (additionalSkills (formData st) = Arr [Str ''CSS''] \<longrightarrow>
      errors (handleSubmit env st) ''additionalSkills'' = None) \<and>
   (\<forall>xs. xs \<noteq> [] \<and> additionalSkills (formData st) = Arr xs \<longrightarrow>
      errors (handleSubmit env st) ''additionalSkills'' = None)"
  by (simp add: errors_additionalSkills)

theorem additionalSkills_minimum_witness:
  "errors (handleSubmit sample_env (state_of initial_form)) ''additionalSkills'' =
      Some (Msg ''At least one skill must be selected'') \<and>
   errors (handleSubmit sample_env (state_of developer_form)) ''additionalSkills'' = None \<and>
   errors (handleSubmit sample_env
      (state_of (developer_form\<lparr>additionalSkills := Arr [Str ''JavaScript'', Str ''CSS'', Str ''Python'']\<rparr>)))
      ''additionalSkills'' = None"
  using additionalSkills_minimum [of "state_of initial_form" sample_env]
    additionalSkills_minimum [of "state_of developer_form" sample_env]
    additionalSkills_minimum
      [of "state_of (developer_form\<lparr>additionalSkills := Arr [Str ''JavaScript'', Str ''CSS'', Str ''Python'']\<rparr>)"
          sample_env]
  by (simp add: sample_defs)

text \<open>
  Claim C9. \<^verbatim>\<open>handleSubmit\<close> leaves the form data as they are, whether the validation
  succeeds or fails.
\<close>
theorem handleSubmit_keeps_formData:
  "formData (handleSubmit env st) = formData st"
  by (simp add: handleSubmit_eq)

theorem handleSubmit_keeps_formData_witness:
  "formData (handleSubmit sample_env (state_of initial_form)) = initial_form \<and>
   formData (handleSubmit sample_env (state_of developer_form)) = developer_form"
  using handleSubmit_keeps_formData [of sample_env "state_of initial_form"]
    handleSubmit_keeps_formData [of sample_env "state_of developer_form"]
  by (simp add: state_of_def)

lemma errors_interviewTime:
  "errors (handleSubmit env st) ''interviewTime'' =
     (if cast env TDate (interviewTime (formData st)) = Undefined
        then Some (Msg ''Preferred Interview Time is required'')
      else if isType TDate (cast env TDate (interviewTime (formData st))) then None
      else Some (NotType TDate))"
  by (cases "cast env TDate (interviewTime (formData st))")
     (simp_all add: errors_one field_errors_def rc_interviewTime cast_object_fields value_defs)

text \<open>
  Claim C10, as stated: a record whose \<^verbatim>\<open>interviewTime\<close> is missing or not a valid date
  has the error \<^verbatim>\<open>Preferred Interview Time is required\<close>. With \<^verbatim>\<open>null\<close>, the value
  of a cleared date picker, the cast gives the invalid date, the type-error test fails
  first and the error is the library's type-error message.
\<close>
theorem interviewTime_null_counterexample:
  "errors (handleSubmit sample_env (state_of (developer_form\<lparr>interviewTime := Null\<rparr>)))
      ''interviewTime'' = Some (NotType TDate) \<and>
   errors (handleSubmit sample_env (state_of (developer_form\<lparr>interviewTime := Null\<rparr>)))
      ''interviewTime'' \<noteq> Some (Msg ''Preferred Interview Time is required'')"
  by (simp add: errors_interviewTime sample_defs)

text \<open>
  Claim C10, amended: a record whose \<^verbatim>\<open>interviewTime\<close> is \<^verbatim>\<open>undefined\<close>, \<^verbatim>\<open>null\<close> or
  the invalid date fails the validation, whatever its position, the submitted data stay
  as they were, and \<^verbatim>\<open>interviewTime\<close> has an error:
  \<^verbatim>\<open>Preferred Interview Time is required\<close> when the value is \<^verbatim>\<open>undefined\<close>, the
  library's type-error message when it is \<^verbatim>\<open>null\<close> or the invalid date.
\<close>

theorem interviewTime_required:
  assumes "interviewTime (formData st) \<in> {Undefined, Null, DateV InvalidDate}"
  shows "errors (handleSubmit env st) ''interviewTime'' =
           Some (if interviewTime (formData st) = Undefined
                 then Msg ''Preferred Interview Time is required'' else NotType TDate) \<and>
         submittedData (handleSubmit env st) = submittedData st \<and>
         (\<exists>inner. validate env validationSchema (formData st) = Inl (ValidationError inner))"
proof -
  have e: "errors (handleSubmit env st) ''interviewTime'' =
           Some (if interviewTime (formData st) = Undefined
                 then Msg ''Preferred Interview Time is required'' else NotType TDate)"
    using assms by (auto simp: errors_interviewTime)
  have n: "inner_errors env (formData st) \<noteq> []"
  proof
    assume "inner_errors env (formData st) = []"
    then have "errors (handleSubmit env st) = Map.empty"
      by (simp add: handleSubmit_eq)
    with e show False by simp
  qed
  then have "submittedData (handleSubmit env st) = submittedData st"
    by (simp add: handleSubmit_eq)
  with e n show ?thesis
    by (simp add: validate_result)
qed

theorem interviewTime_required_witness:
  "errors (handleSubmit sample_env (state_of (developer_form\<lparr>interviewTime := Undefined\<rparr>)))
      ''interviewTime'' = Some (Msg ''Preferred Interview Time is required'') \<and>
   errors (handleSubmit sample_env (state_of (developer_form\<lparr>interviewTime := DateV InvalidDate\<rparr>)))
      ''interviewTime'' = Some (NotType TDate) \<and>
   submittedData (handleSubmit sample_env (state_of (developer_form\<lparr>interviewTime := Undefined\<rparr>))) = None"
  using interviewTime_required [of "state_of (developer_form\<lparr>interviewTime := Undefined\<rparr>)" sample_env]
    interviewTime_required [of "state_of (developer_form\<lparr>interviewTime := DateV InvalidDate\<rparr>)" sample_env]
  by (simp add: sample_defs)

end
